theory Spec2Isabelle
  imports Main "HOL-Library.Multiset"
begin

section \<open>The meeting-room model (KananGadhia2.py)\<close>

subsection \<open>Console output\<close>

text \<open>
  Every \<^verbatim>\<open>print\<close> of the script is one constructor of \<open>msg\<close>, carrying the values
  interpolated into the line. The console is the list of lines printed so far.
\<close>

datatype msg =
    AC_turned_on                    \<comment> \<open>\<^verbatim>\<open>AC turned on.\<close>\<close>
  | AC_turned_off                   \<comment> \<open>\<^verbatim>\<open>AC turned off.\<close>\<close>
  | Lights_turned_on                \<comment> \<open>\<^verbatim>\<open>Lights turned on.\<close>\<close>
  | Lights_turned_off               \<comment> \<open>\<^verbatim>\<open>Lights turned off.\<close>\<close>
  | Capacity_set int int            \<comment> \<open>\<^verbatim>\<open>Room {room_number} maximum capacity set to {max_capacity}.\<close>\<close>
  | Invalid_capacity                \<comment> \<open>\<^verbatim>\<open>Invalid capacity. Please enter a valid positive number.\<close>\<close>
  | Now_occupied int int            \<comment> \<open>\<^verbatim>\<open>Room {room_number} is now occupied by {count} persons.\<close>\<close>
  | Occupancy_insufficient int      \<comment> \<open>\<^verbatim>\<open>Room {room_number} occupancy insufficient to mark as occupied.\<close>\<close>
  | Now_unoccupied int              \<comment> \<open>\<^verbatim>\<open>Room {room_number} is now unoccupied.\<close>\<close>
  | Office_configured int           \<comment> \<open>\<^verbatim>\<open>Office configured with {count} meeting rooms.\<close>\<close>
  | Invalid_room_number             \<comment> \<open>\<^verbatim>\<open>Invalid room number.\<close>\<close>
  | Room_booked int string int      \<comment> \<open>\<^verbatim>\<open>Room {room_number} booked from {start_time} for {duration} minutes.\<close>\<close>
  | Already_booked int              \<comment> \<open>\<^verbatim>\<open>Room {room_number} is already booked.\<close>\<close>
  | Booking_cancelled int           \<comment> \<open>\<^verbatim>\<open>Booking for Room {room_number} cancelled successfully.\<close>\<close>
  | Not_booked int                  \<comment> \<open>\<^verbatim>\<open>Room {room_number} is not booked.\<close>\<close>

subsection \<open>Observers\<close>

text \<open>
  The two concrete observer classes. An observer object has no fields, so it is
  identified by its class; \<open>update\<close> dispatches on it as the method call does.
\<close>

datatype observer = AC | Lights

fun update :: "observer \<Rightarrow> bool \<Rightarrow> msg list" where
  "update AC is_occ = (if is_occ then [AC_turned_on] else [AC_turned_off])"
| "update Lights is_occ = (if is_occ then [Lights_turned_on] else [Lights_turned_off])"

subsection \<open>Room\<close>

record room =
  room_number :: int
  occupied :: bool
  max_capacity :: int
  observers :: "observer list"

text \<open>
  A method of \<open>Room\<close> takes the object's fields and returns them as the call leaves
  them, together with the lines it printed, in order.
\<close>

definition Room_init :: "int \<Rightarrow> room" where
  "Room_init n =
     \<lparr>room_number = n, occupied = False, max_capacity = 0, observers = [AC, Lights]\<rparr>"

definition set_max_capacity :: "room \<Rightarrow> int \<Rightarrow> room \<times> msg list" where
  "set_max_capacity self n =
     (if n > 0
      then (self\<lparr>max_capacity := n\<rparr>, [Capacity_set (room_number self) n])
      else (self, [Invalid_capacity]))"

definition get_room_number :: "room \<Rightarrow> int" where
  "get_room_number self = room_number self"

definition is_occupied :: "room \<Rightarrow> bool" where
  "is_occupied self = occupied self"

text \<open>The \<^verbatim>\<open>for\<close> loop over \<^verbatim>\<open>self.observers\<close>, one \<open>update\<close> call per element.\<close>

fun notify_loop :: "observer list \<Rightarrow> bool \<Rightarrow> msg list" where
  "notify_loop [] is_occ = []"
| "notify_loop (ob # obs) is_occ = update ob is_occ @ notify_loop obs is_occ"

definition notify_observers :: "room \<Rightarrow> msg list" where
  "notify_observers self = notify_loop (observers self) (occupied self)"

definition add_occupants :: "room \<Rightarrow> int \<Rightarrow> room \<times> msg list" where
  "add_occupants self cnt =
     (let (self1, out) =
        (if cnt \<ge> 2
         then (self\<lparr>occupied := True\<rparr>, [Now_occupied (room_number self) cnt])
         else (self\<lparr>occupied := False\<rparr>, [Occupancy_insufficient (room_number self)]))
      in (self1, out @ notify_observers self1))"

definition release_occupants :: "room \<Rightarrow> room \<times> msg list" where
  "release_occupants self =
     (let self1 = self\<lparr>occupied := False\<rparr>
      in (self1, [Now_unoccupied (room_number self1)] @ notify_observers self1))"

subsection \<open>The store\<close>

text \<open>
  Rooms and the office manager are shared by reference: a command keeps a reference
  to its room, and the manager's list holds references to the same objects. A reference
  is an index into the list of objects allocated so far; allocation appends.
  \<open>instance\<close> is the class attribute \<^verbatim>\<open>OfficeManager._instance\<close>.
\<close>

type_synonym ref = nat

record office_manager =
  rooms :: "ref list"

record store =
  room_objs :: "room list"
  manager_objs :: "office_manager list"
  "instance" :: "ref option"
  console :: "msg list"

definition init_store :: store where
  "init_store = \<lparr>room_objs = [], manager_objs = [], instance = None, console = []\<rparr>"

definition deref :: "'a list \<Rightarrow> ref \<Rightarrow> 'a option" where
  "deref objs a = (if a < length objs then Some (objs ! a) else None)"

definition print :: "msg list \<Rightarrow> store \<Rightarrow> store" where
  "print out s = s\<lparr>console := console s @ out\<rparr>"

text \<open>
  Calling a \<open>Room\<close> method through a reference: the object is read, the method runs
  on it, and the object is written back. The result is \<open>None\<close> only for a reference
  that denotes no object, which no Python expression can produce.
\<close>

definition call_room :: "ref \<Rightarrow> (room \<Rightarrow> room \<times> msg list) \<Rightarrow> store \<Rightarrow> store option" where
  "call_room a m s =
     (case deref (room_objs s) a of
        None \<Rightarrow> None
      | Some r \<Rightarrow>
          (let (r1, out) = m r
           in Some (print out (s\<lparr>room_objs := (room_objs s)[a := r1]\<rparr>))))"

definition room_is_occupied :: "ref \<Rightarrow> store \<Rightarrow> bool option" where
  "room_is_occupied a s = map_option is_occupied (deref (room_objs s) a)"

subsection \<open>OfficeManager\<close>

text \<open>
  \<^verbatim>\<open>__new__\<close>: the first call allocates the manager object, gives it an empty room
  list and stores it in the class attribute; every call returns the class attribute.
\<close>

definition OfficeManager_new :: "store \<Rightarrow> ref \<times> store" where
  "OfficeManager_new s =
     (case instance s of
        None \<Rightarrow>
          (let a = length (manager_objs s)
           in (a, s\<lparr>manager_objs := manager_objs s @ [\<lparr>rooms = []\<rparr>], instance := Some a\<rparr>))
      | Some a \<Rightarrow> (a, s))"

text \<open>
  The body of the loop of \<open>configure_rooms\<close>: \<^verbatim>\<open>self.rooms.append(Room(i))\<close>
  allocates a room and appends its reference to the manager's list.
\<close>

definition append_room :: "ref \<Rightarrow> int \<Rightarrow> store \<Rightarrow> store option" where
  "append_room self i s =
     (case deref (manager_objs s) self of
        None \<Rightarrow> None
      | Some m \<Rightarrow>
          (let a = length (room_objs s)
           in Some (s\<lparr>room_objs := room_objs s @ [Room_init i],
                       manager_objs := (manager_objs s)[self := m\<lparr>rooms := rooms m @ [a]\<rparr>]\<rparr>)))"

fun configure_loop :: "ref \<Rightarrow> int list \<Rightarrow> store \<Rightarrow> store option" where
  "configure_loop self [] s = Some s"
| "configure_loop self (i # is) s =
     (case append_room self i s of
        None \<Rightarrow> None
      | Some s1 \<Rightarrow> configure_loop self is s1)"

text \<open>\<^verbatim>\<open>range(1, count + 1)\<close> is the list \<open>[1..cnt]\<close>, empty when \<open>cnt < 1\<close>.\<close>

definition configure_rooms :: "ref \<Rightarrow> int \<Rightarrow> store \<Rightarrow> store option" where
  "configure_rooms self cnt s =
     (case deref (manager_objs s) self of
        None \<Rightarrow> None
      | Some _ \<Rightarrow> map_option (print [Office_configured cnt]) (configure_loop self [1..cnt] s))"

definition get_room :: "ref \<Rightarrow> int \<Rightarrow> store \<Rightarrow> (ref option \<times> store) option" where
  "get_room self number s =
     (case deref (manager_objs s) self of
        None \<Rightarrow> None
      | Some m \<Rightarrow>
          (if 0 < number \<and> number \<le> int (length (rooms m))
           then Some (Some (rooms m ! nat (number - 1)), s)
           else Some (None, print [Invalid_room_number] s)))"

subsection \<open>Commands\<close>

record book_room_command =
  room :: ref
  start_time :: string
  duration :: int

record cancel_booking_command =
  croom :: ref

definition BookRoomCommand_init :: "ref \<Rightarrow> string \<Rightarrow> int \<Rightarrow> book_room_command" where
  "BookRoomCommand_init r st d = \<lparr>room = r, start_time = st, duration = d\<rparr>"

definition CancelBookingCommand_init :: "ref \<Rightarrow> cancel_booking_command" where
  "CancelBookingCommand_init r = \<lparr>croom = r\<rparr>"

definition BookRoomCommand_execute :: "book_room_command \<Rightarrow> store \<Rightarrow> store option" where
  "BookRoomCommand_execute self s =
     (case deref (room_objs s) (room self) of
        None \<Rightarrow> None
      | Some r \<Rightarrow>
          (if \<not> is_occupied r
           then call_room (room self) (\<lambda>r. add_occupants r 2)
                  (print [Room_booked (get_room_number r) (start_time self) (duration self)] s)
           else Some (print [Already_booked (get_room_number r)] s)))"

definition CancelBookingCommand_execute :: "cancel_booking_command \<Rightarrow> store \<Rightarrow> store option" where
  "CancelBookingCommand_execute self s =
     (case deref (room_objs s) (croom self) of
        None \<Rightarrow> None
      | Some r \<Rightarrow>
          (if is_occupied r
           then (case call_room (croom self) release_occupants s of
                   None \<Rightarrow> None
                 | Some s1 \<Rightarrow>
                     (case deref (room_objs s1) (croom self) of
                        None \<Rightarrow> None
                      | Some r1 \<Rightarrow> Some (print [Booking_cancelled (get_room_number r1)] s1)))
           else Some (print [Not_booked (get_room_number r)] s)))"

subsection \<open>Well-formed stores and observations\<close>

text \<open>
  The stores the program can reach: every reference in a manager's list denotes an
  allocated room, every room has the observers its constructor gave it, and there is at
  most one manager object, the one the class attribute refers to.
\<close>

definition wf_store :: "store \<Rightarrow> bool" where
  "wf_store s \<longleftrightarrow>
     list_all (\<lambda>m. list_all (\<lambda>a. a < length (room_objs s)) (rooms m)) (manager_objs s)
     \<and> list_all (\<lambda>r. observers r = [AC, Lights]) (room_objs s)
     \<and> (case instance s of
          None \<Rightarrow> manager_objs s = []
        | Some a \<Rightarrow> a = 0 \<and> length (manager_objs s) = 1)"

text \<open>The room numbers of a manager's rooms, in the order of its list.\<close>

definition room_numbers :: "ref \<Rightarrow> store \<Rightarrow> int list option" where
  "room_numbers self s =
     map_option (\<lambda>m. map (\<lambda>a. get_room_number (room_objs s ! a)) (rooms m))
       (deref (manager_objs s) self)"

text \<open>
  Two stores of the script's run: after \<^verbatim>\<open>OfficeManager()\<close> and
  \<^verbatim>\<open>configure_rooms(3)\<close>, and after booking room 1 from there.
\<close>

definition demo_store :: store where
  "demo_store =
     \<lparr>room_objs = [Room_init 1, Room_init 2, Room_init 3],
      manager_objs = [\<lparr>rooms = [0, 1, 2]\<rparr>], instance = Some 0,
      console = [Office_configured 3]\<rparr>"

definition booked_store :: store where
  "booked_store =
     \<lparr>room_objs = [Room_init 1\<lparr>occupied := True\<rparr>, Room_init 2, Room_init 3],
      manager_objs = [\<lparr>rooms = [0, 1, 2]\<rparr>], instance = Some 0,
      console = [Office_configured 3, Room_booked 1 ''09:00'' 60, Now_occupied 1 2,
                 AC_turned_on, Lights_turned_on]\<rparr>"

section \<open>The sorting strategies (KananGadhia.py)\<close>

















section \<open>Properties of the meeting-room model\<close>

subsection \<open>Room methods\<close>

lemma fst_add_occupants: "fst (add_occupants self cnt) = self\<lparr>occupied := (cnt \<ge> 2)\<rparr>"
  by (simp add: add_occupants_def)

lemma snd_add_occupants:
  "snd (add_occupants self cnt) =
     (if cnt \<ge> 2 then Now_occupied (room_number self) cnt
      else Occupancy_insufficient (room_number self))
     # notify_loop (observers self) (cnt \<ge> 2)"
  by (simp add: add_occupants_def notify_observers_def)

lemma fst_release_occupants: "fst (release_occupants self) = self\<lparr>occupied := False\<rparr>"
  by (simp add: release_occupants_def Let_def)

lemma snd_release_occupants:
  "snd (release_occupants self) =
     Now_unoccupied (room_number self) # notify_loop (observers self) False"
  by (simp add: release_occupants_def notify_observers_def Let_def)

lemma call_room_Some:
  "deref (room_objs s) a = Some r \<Longrightarrow>
   call_room a m s = Some (print (snd (m r)) (s\<lparr>room_objs := (room_objs s)[a := fst (m r)]\<rparr>))"
  by (simp add: call_room_def split: prod.splits)

lemma deref_update_same:
  "a < length objs \<Longrightarrow> deref (objs[a := x]) a = Some x"
  by (simp add: deref_def)

lemma deref_Some_iff: "deref objs a = Some x \<longleftrightarrow> a < length objs \<and> objs ! a = x"
  by (auto simp: deref_def)

lemma notify_loop_concat: "notify_loop obs b = concat (map (\<lambda>ob. update ob b) obs)"
  by (induction obs) simp_all

lemma notify_each_registered:
  "snd (add_occupants self cnt) =
      (if cnt \<ge> 2 then Now_occupied (room_number self) cnt
       else Occupancy_insufficient (room_number self))
      # concat (map (\<lambda>ob. update ob (is_occupied (fst (add_occupants self cnt)))) (observers self))"
  "snd (release_occupants self) =
      Now_unoccupied (room_number self)
      # concat (map (\<lambda>ob. update ob (is_occupied (fst (release_occupants self)))) (observers self))"
  by (simp_all add: snd_add_occupants snd_release_occupants fst_add_occupants
      fst_release_occupants is_occupied_def notify_loop_concat)

lemma observers_unchanged:
  "observers (fst (add_occupants self cnt)) = observers self"
  "observers (fst (release_occupants self)) = observers self"
  "observers (fst (set_max_capacity self k)) = observers self"
  by (simp_all add: fst_add_occupants fst_release_occupants set_max_capacity_def)

text \<open>
  Claim C1. For every integer count and every prior state of the room, after
  \<open>add_occupants\<close> the value of \<open>is_occupied\<close> is \<open>count \<ge> 2\<close>; the same holds when
  the method is called through a reference to a room in the store. In particular a
  count below 2 leaves an occupied room unoccupied.
\<close>

theorem add_occupants_sets_occupied:
  "is_occupied (fst (add_occupants self cnt)) = (cnt \<ge> 2)
   \<and> (deref (room_objs s) a = Some r \<longrightarrow>
        (\<exists>s1. call_room a (\<lambda>r. add_occupants r cnt) s = Some s1
              \<and> room_is_occupied a s1 = Some (cnt \<ge> 2)))"
  by (auto simp: fst_add_occupants is_occupied_def call_room_Some room_is_occupied_def
      print_def deref_Some_iff)

theorem add_occupants_sets_occupied_witness:
  "deref (room_objs \<lparr>room_objs = [Room_init 1\<lparr>occupied := True\<rparr>], manager_objs = [],
                      instance = None, console = []\<rparr>) 0 = Some (Room_init 1\<lparr>occupied := True\<rparr>)
   \<and> (\<exists>s1. call_room 0 (\<lambda>r. add_occupants r 1)
              \<lparr>room_objs = [Room_init 1\<lparr>occupied := True\<rparr>], manager_objs = [],
                instance = None, console = []\<rparr> = Some s1
           \<and> room_is_occupied 0 s1 = Some False)"
  using add_occupants_sets_occupied [of "Room_init 1" 1
      "\<lparr>room_objs = [Room_init 1\<lparr>occupied := True\<rparr>], manager_objs = [],
        instance = None, console = []\<rparr>" 0 "Room_init 1\<lparr>occupied := True\<rparr>"]
  by (simp add: deref_def)

text \<open>
  Claim C9. \<open>release_occupants\<close> leaves \<open>is_occupied\<close> false from every prior state,
  on the object and through a reference.
\<close>

theorem release_occupants_unoccupied:
  "is_occupied (fst (release_occupants self)) = False
   \<and> (deref (room_objs s) a = Some r \<longrightarrow>
        (\<exists>s1. call_room a release_occupants s = Some s1
              \<and> room_is_occupied a s1 = Some False))"
  by (auto simp: fst_release_occupants is_occupied_def call_room_Some room_is_occupied_def
      print_def deref_Some_iff)

theorem release_occupants_unoccupied_witness:
  "deref (room_objs \<lparr>room_objs = [Room_init 1\<lparr>occupied := True\<rparr>], manager_objs = [],
                      instance = None, console = []\<rparr>) 0 = Some (Room_init 1\<lparr>occupied := True\<rparr>)
   \<and> (\<exists>s1. call_room 0 release_occupants
              \<lparr>room_objs = [Room_init 1\<lparr>occupied := True\<rparr>], manager_objs = [],
                instance = None, console = []\<rparr> = Some s1
           \<and> room_is_occupied 0 s1 = Some False)"
  using release_occupants_unoccupied [of "Room_init 1"
      "\<lparr>room_objs = [Room_init 1\<lparr>occupied := True\<rparr>], manager_objs = [],
        instance = None, console = []\<rparr>" 0 "Room_init 1\<lparr>occupied := True\<rparr>"]
  by (simp add: deref_def)

text \<open>
  Claim C7. \<open>set_max_capacity n\<close> sets the capacity to \<open>n\<close> and prints the
  confirmation when \<open>n > 0\<close>; for \<open>n \<le> 0\<close> it leaves the capacity as it was and prints
  the invalid-capacity warning. The capacity differs afterwards only if \<open>n > 0\<close>.
  Occupancy, room number and observers are the same in both cases.
\<close>

theorem set_max_capacity_iff_positive:
  "(n > 0 \<longrightarrow> max_capacity (fst (set_max_capacity self n)) = n
              \<and> snd (set_max_capacity self n) = [Capacity_set (room_number self) n])
   \<and> (n \<le> 0 \<longrightarrow> max_capacity (fst (set_max_capacity self n)) = max_capacity self
              \<and> snd (set_max_capacity self n) = [Invalid_capacity])
   \<and> (max_capacity (fst (set_max_capacity self n)) \<noteq> max_capacity self \<longrightarrow> n > 0)
   \<and> occupied (fst (set_max_capacity self n)) = occupied self
   \<and> room_number (fst (set_max_capacity self n)) = room_number self
   \<and> observers (fst (set_max_capacity self n)) = observers self"
  by (simp add: set_max_capacity_def)

theorem set_max_capacity_iff_positive_witness:
  "(10::int) > 0
   \<and> max_capacity (fst (set_max_capacity (Room_init 1) 10)) = 10
   \<and> max_capacity (fst (set_max_capacity (Room_init 1) 10)) \<noteq> max_capacity (Room_init 1)
   \<and> snd (set_max_capacity (Room_init 1) 10) = [Capacity_set 1 10]
   \<and> (0::int) \<le> 0
   \<and> max_capacity (fst (set_max_capacity (fst (set_max_capacity (Room_init 1) 10)) 0)) = 10
   \<and> snd (set_max_capacity (fst (set_max_capacity (Room_init 1) 10)) 0) = [Invalid_capacity]"
  using set_max_capacity_iff_positive [of 10 "Room_init 1"]
    set_max_capacity_iff_positive [of 0 "fst (set_max_capacity (Room_init 1) 10)"]
  by (simp add: Room_init_def set_max_capacity_def)

text \<open>
  Claim C2. A room created by the constructor has the observers AC and Lights, in this
  order, and no method changes them. For such a room the output of \<open>add_occupants\<close> and
  of \<open>release_occupants\<close> is the method's own line followed by exactly one \<open>update\<close> of
  AC and then exactly one \<open>update\<close> of Lights, both with the occupancy the call
  results in; no branch of either method omits them.
\<close>

theorem notify_once_each_in_order:
  assumes "observers self = [AC, Lights]"
  shows "snd (add_occupants self cnt) =
           (if cnt \<ge> 2 then Now_occupied (room_number self) cnt
            else Occupancy_insufficient (room_number self))
           # update AC (is_occupied (fst (add_occupants self cnt)))
           @ update Lights (is_occupied (fst (add_occupants self cnt)))
       \<and> snd (release_occupants self) =
           Now_unoccupied (room_number self)
           # update AC (is_occupied (fst (release_occupants self)))
           @ update Lights (is_occupied (fst (release_occupants self)))
       \<and> observers (fst (add_occupants self cnt)) = [AC, Lights]
       \<and> observers (fst (release_occupants self)) = [AC, Lights]
       \<and> observers (Room_init n) = [AC, Lights]"
  using assms
  by (simp add: notify_each_registered observers_unchanged Room_init_def)

theorem notify_once_each_in_order_witness:
  "observers (Room_init 1) = [AC, Lights]
   \<and> snd (add_occupants (Room_init 1) 3) = [Now_occupied 1 3, AC_turned_on, Lights_turned_on]
   \<and> snd (add_occupants (Room_init 1) 0) =
        [Occupancy_insufficient 1, AC_turned_off, Lights_turned_off]
   \<and> snd (release_occupants (Room_init 1)) =
        [Now_unoccupied 1, AC_turned_off, Lights_turned_off]"
proof -
  have h: "observers (Room_init 1) = [AC, Lights]" and n: "room_number (Room_init 1) = 1"
    by (simp_all add: Room_init_def)
  show ?thesis
    using h notify_once_each_in_order [OF h, of 3 1] notify_once_each_in_order [OF h, of 0 1]
    by (simp add: n fst_add_occupants fst_release_occupants is_occupied_def)
qed

subsection \<open>The store invariant\<close>

lemma wf_init_store: "wf_store init_store"
  by (simp add: wf_store_def init_store_def)

lemma wf_print [simp]: "wf_store (print out s) = wf_store s"
  by (simp add: wf_store_def print_def split: option.splits)

lemma OfficeManager_new_Some: "instance s = Some a \<Longrightarrow> OfficeManager_new s = (a, s)"
  by (simp add: OfficeManager_new_def)

lemma instance_OfficeManager_new:
  "instance (snd (OfficeManager_new s)) = Some (fst (OfficeManager_new s))"
  by (simp add: OfficeManager_new_def Let_def split: option.splits)

lemma wf_OfficeManager_new: "wf_store s \<Longrightarrow> wf_store (snd (OfficeManager_new s))"
  by (auto simp: wf_store_def OfficeManager_new_def Let_def split: option.splits)

lemma deref_OfficeManager_new:
  "wf_store s \<Longrightarrow>
   \<exists>m. deref (manager_objs (snd (OfficeManager_new s))) (fst (OfficeManager_new s)) = Some m"
  by (auto simp: wf_store_def OfficeManager_new_def Let_def deref_def split: option.splits)

lemma append_room_Some:
  "deref (manager_objs s) self = Some m \<Longrightarrow>
   append_room self i s =
     Some (s\<lparr>room_objs := room_objs s @ [Room_init i],
             manager_objs := (manager_objs s)[self := m\<lparr>rooms := rooms m @ [length (room_objs s)]\<rparr>]\<rparr>)"
  by (simp add: append_room_def Let_def)

lemma configure_loop_appends:
  "deref (manager_objs s) self = Some m \<Longrightarrow>
   configure_loop self is s =
     Some (s\<lparr>room_objs := room_objs s @ map Room_init is,
             manager_objs := (manager_objs s)
               [self := m\<lparr>rooms := rooms m @ [length (room_objs s) ..< length (room_objs s) + length is]\<rparr>]\<rparr>)"
proof (induction "is" arbitrary: s m)
  case Nil
  then have "(manager_objs s)[self := m] = manager_objs s"
    by (auto simp: deref_Some_iff)
  then show ?case by simp
next
  case (Cons i "is")
  let ?s1 = "s\<lparr>room_objs := room_objs s @ [Room_init i],
             manager_objs := (manager_objs s)[self := m\<lparr>rooms := rooms m @ [length (room_objs s)]\<rparr>]\<rparr>"
  have d: "deref (manager_objs ?s1) self = Some (m\<lparr>rooms := rooms m @ [length (room_objs s)]\<rparr>)"
    using Cons.prems by (simp add: deref_Some_iff)
  have "[length (room_objs s)..<length (room_objs s) + Suc (length is)] =
        length (room_objs s) # [Suc (length (room_objs s))..<Suc (length (room_objs s)) + length is]"
    by (simp add: upt_rec)
  then show ?case
    using Cons.prems by (simp add: append_room_Some Cons.IH [OF d])
qed

lemma configure_rooms_appends:
  "deref (manager_objs s) self = Some m \<Longrightarrow>
   configure_rooms self cnt s =
     Some (s\<lparr>room_objs := room_objs s @ map Room_init [1..cnt],
             manager_objs := (manager_objs s)
               [self := m\<lparr>rooms := rooms m @ [length (room_objs s) ..< length (room_objs s) + nat cnt]\<rparr>],
             console := console s @ [Office_configured cnt]\<rparr>)"
  by (simp add: configure_rooms_def configure_loop_appends print_def)

lemma instance_configure_rooms:
  "configure_rooms self cnt s = Some s1 \<Longrightarrow> instance s1 = instance s"
  by (auto simp: configure_rooms_def configure_loop_appends print_def split: option.splits)

lemma wf_configure_rooms:
  assumes "wf_store s" "configure_rooms self cnt s = Some s1"
  shows "wf_store s1"
proof -
  from assms(2) obtain m where m: "deref (manager_objs s) self = Some m"
    by (auto simp: configure_rooms_def split: option.splits)
  let ?n = "length (room_objs s)"
  let ?m1 = "m\<lparr>rooms := rooms m @ [?n ..< ?n + nat cnt]\<rparr>"
  have s1: "s1 = s\<lparr>room_objs := room_objs s @ map Room_init [1..cnt],
             manager_objs := (manager_objs s)[self := ?m1],
             console := console s @ [Office_configured cnt]\<rparr>"
    using assms(2) configure_rooms_appends [OF m, of cnt] by simp
  have old: "\<forall>m' \<in> set (manager_objs s). \<forall>a \<in> set (rooms m'). a < ?n"
    using assms(1) by (simp add: wf_store_def list_all_iff)
  have min: "m \<in> set (manager_objs s)"
    using m by (auto simp: deref_Some_iff)
  have new: "\<forall>a \<in> set (rooms ?m1). a < ?n + nat cnt"
    using old min by fastforce
  have refs: "\<forall>m' \<in> set ((manager_objs s)[self := ?m1]). \<forall>a \<in> set (rooms m'). a < ?n + nat cnt"
  proof
    fix m' assume "m' \<in> set ((manager_objs s)[self := ?m1])"
    then have "m' = ?m1 \<or> m' \<in> set (manager_objs s)"
      using set_update_subset_insert [of "manager_objs s" self ?m1] by auto
    then show "\<forall>a \<in> set (rooms m'). a < ?n + nat cnt"
      using new old by fastforce
  qed
  have obs: "\<forall>r \<in> set (room_objs s @ map Room_init [1..cnt]). observers r = [AC, Lights]"
    using assms(1) by (auto simp: wf_store_def list_all_iff Room_init_def)
  have inst: "case instance s of None \<Rightarrow> (manager_objs s)[self := ?m1] = []
              | Some a \<Rightarrow> a = 0 \<and> length ((manager_objs s)[self := ?m1]) = 1"
    using assms(1) by (auto simp: wf_store_def split: option.splits)
  show ?thesis
    unfolding s1 wf_store_def using refs obs inst
    by (simp add: list_all_iff split: option.splits)
qed

lemma upto_1_3: "[1..3::int] = [1, 2, 3]" and upto_1_2: "[1..2::int] = [1, 2]"
  by (simp_all add: upto.simps)

lemma new_init_store:
  "OfficeManager_new init_store =
     (0, \<lparr>room_objs = [], manager_objs = [\<lparr>rooms = []\<rparr>], instance = Some 0, console = []\<rparr>)"
  by (simp add: OfficeManager_new_def init_store_def)

lemma configure3:
  "configure_rooms 0 3 (snd (OfficeManager_new init_store)) =
     Some demo_store"
proof -
  have d: "deref (manager_objs (snd (OfficeManager_new init_store))) 0 = Some \<lparr>rooms = []\<rparr>"
    by (simp add: new_init_store deref_def)
  show ?thesis
    by (simp add: configure_rooms_appends [OF d] upto_1_3) (simp add: new_init_store upt_rec demo_store_def)
qed

lemma wf_demo_store: "wf_store demo_store"
  using wf_configure_rooms [OF wf_OfficeManager_new [OF wf_init_store] configure3] .

lemma deref_demo_manager: "deref (manager_objs demo_store) 0 = Some \<lparr>rooms = [0, 1, 2]\<rparr>"
  by (simp add: demo_store_def deref_def)

lemma map_nth_append_new:
  "map (\<lambda>a. f ((xs @ ys) ! a)) [length xs ..< length xs + length ys] = map f ys"
  by (rule nth_equalityI) (simp_all add: nth_append)

lemma room_numbers_configure_rooms:
  assumes "wf_store s" and "deref (manager_objs s) self = Some m"
  shows "\<exists>s1. configure_rooms self cnt s = Some s1
           \<and> room_numbers self s1 =
               Some (map (\<lambda>a. get_room_number (room_objs s ! a)) (rooms m) @ [1..cnt])"
proof -
  let ?n = "length (room_objs s)"
  let ?new = "map Room_init [1..cnt]"
  have lt: "self < length (manager_objs s)"
    using assms(2) by (simp add: deref_Some_iff)
  have "m \<in> set (manager_objs s)"
    using assms(2) by (auto simp: deref_Some_iff)
  then have old: "\<forall>a \<in> set (rooms m). a < ?n"
    using assms(1) by (simp add: wf_store_def list_all_iff)
  have 1: "map (\<lambda>a. get_room_number ((room_objs s @ ?new) ! a)) (rooms m) =
           map (\<lambda>a. get_room_number (room_objs s ! a)) (rooms m)"
    using old by (simp add: nth_append)
  have "map (\<lambda>a. get_room_number ((room_objs s @ ?new) ! a)) [?n ..< ?n + length ?new] =
           map get_room_number ?new"
    by (rule map_nth_append_new)
  then have 2: "map (\<lambda>a. get_room_number ((room_objs s @ ?new) ! a)) [?n ..< ?n + nat cnt] = [1..cnt]"
    by (simp add: get_room_number_def Room_init_def o_def)
  show ?thesis
    using lt by (simp add: configure_rooms_appends [OF assms(2)] room_numbers_def deref_def 1 2)
qed

subsection \<open>The registry\<close>

text \<open>
  Claim C4. For every integer \<open>k\<close>, \<open>get_room k\<close> returns the reference at the 1-based
  position \<open>k\<close> of the manager's list, which denotes a room, when
  \<open>1 \<le> k \<le> number of rooms\<close>, and then the store is as before. For every other \<open>k\<close> it
  returns no room and prints the invalid-room-number line; rooms, managers and the
  class attribute are as before.
\<close>

theorem get_room_iff_in_range:
  assumes "wf_store s" and "deref (manager_objs s) self = Some m"
  shows "(1 \<le> k \<and> k \<le> int (length (rooms m)) \<longrightarrow>
            get_room self k s = Some (Some (rooms m ! (nat k - 1)), s)
            \<and> (\<exists>r. deref (room_objs s) (rooms m ! (nat k - 1)) = Some r))
       \<and> (\<not> (1 \<le> k \<and> k \<le> int (length (rooms m))) \<longrightarrow>
            (\<exists>s1. get_room self k s = Some (None, s1)
               \<and> console s1 = console s @ [Invalid_room_number]
               \<and> manager_objs s1 = manager_objs s \<and> room_objs s1 = room_objs s
               \<and> instance s1 = instance s))"
proof -
  have min: "m \<in> set (manager_objs s)"
    using assms(2) by (auto simp: deref_Some_iff)
  have refs: "\<forall>a \<in> set (rooms m). a < length (room_objs s)"
    using assms(1) min by (simp add: wf_store_def list_all_iff)
  have idx: "nat (k - 1) = nat k - 1"
    by simp
  have "1 \<le> k \<Longrightarrow> k \<le> int (length (rooms m)) \<Longrightarrow> rooms m ! (nat k - 1) \<in> set (rooms m)"
    by (simp add: nat_diff_distrib' less_diff_conv2 )
  then show ?thesis
    using assms(2) refs
    by (auto simp: get_room_def print_def deref_def idx simp del: nat_diff_distrib)
qed

theorem get_room_iff_in_range_witness:
  "wf_store demo_store
   \<and> deref (manager_objs demo_store) 0 = Some \<lparr>rooms = [0, 1, 2]\<rparr>
   \<and> get_room 0 1 demo_store = Some (Some 0, demo_store)
   \<and> get_room 0 3 demo_store = Some (Some 2, demo_store)
   \<and> (\<exists>s1. get_room 0 99 demo_store = Some (None, s1)
          \<and> console s1 = console demo_store @ [Invalid_room_number]
          \<and> manager_objs s1 = manager_objs demo_store \<and> room_objs s1 = room_objs demo_store
          \<and> instance s1 = instance demo_store)
   \<and> (\<exists>s1. get_room 0 0 demo_store = Some (None, s1))"
  using wf_demo_store deref_demo_manager
    get_room_iff_in_range [OF wf_demo_store deref_demo_manager, of 1]
    get_room_iff_in_range [OF wf_demo_store deref_demo_manager, of 3]
    get_room_iff_in_range [OF wf_demo_store deref_demo_manager, of 99]
    get_room_iff_in_range [OF wf_demo_store deref_demo_manager, of 0]
  by auto

text \<open>
  Claim C8. Constructing the manager again returns the same reference and leaves the
  whole store as it is, also after \<open>configure_rooms\<close>: no room and no room list is reset
  or replaced. A well-formed store holds exactly one manager object after construction.
\<close>

theorem OfficeManager_new_same_instance:
  "fst (OfficeManager_new (snd (OfficeManager_new s))) = fst (OfficeManager_new s)
   \<and> snd (OfficeManager_new (snd (OfficeManager_new s))) = snd (OfficeManager_new s)
   \<and> (OfficeManager_new s = (a, s0) \<and> configure_rooms a cnt s0 = Some s1 \<longrightarrow>
        OfficeManager_new s1 = (a, s1))
   \<and> (wf_store s \<longrightarrow> length (manager_objs (snd (OfficeManager_new s))) = 1)"
proof -
  have twice: "OfficeManager_new (snd (OfficeManager_new s)) = OfficeManager_new s"
    using OfficeManager_new_Some [OF instance_OfficeManager_new [of s]] by simp
  have later: "OfficeManager_new s1 = (a, s1)"
    if "OfficeManager_new s = (a, s0)" and "configure_rooms a cnt s0 = Some s1"
  proof -
    have "instance s0 = Some a"
      using instance_OfficeManager_new [of s] that(1) by simp
    then have "instance s1 = Some a"
      using instance_configure_rooms [OF that(2)] by simp
    then show ?thesis
      by (rule OfficeManager_new_Some)
  qed
  have one: "length (manager_objs (snd (OfficeManager_new s))) = 1" if "wf_store s"
    using wf_OfficeManager_new [OF that] instance_OfficeManager_new [of s]
    by (simp add: wf_store_def)
  from twice later one show ?thesis
    by simp
qed

theorem OfficeManager_new_same_instance_witness:
  "OfficeManager_new init_store = (0, snd (OfficeManager_new init_store))
   \<and> configure_rooms 0 3 (snd (OfficeManager_new init_store)) = Some demo_store
   \<and> OfficeManager_new demo_store = (0, demo_store)
   \<and> wf_store init_store
   \<and> length (manager_objs (snd (OfficeManager_new init_store))) = 1"
  using OfficeManager_new_same_instance
      [of init_store 0 "snd (OfficeManager_new init_store)" 3 demo_store]
    configure3 wf_init_store
  by (simp add: new_init_store)

text \<open>
  Claim C3. The claim says that \<open>configure_rooms\<close> numbers the new rooms from
  \<open>len(existing) + 1\<close>. The loop numbers them from 1 on every call
  (\<open>room_numbers_configure_rooms\<close>): configuring two rooms twice gives the room numbers
  1, 2, 1, 2, and \<open>get_room 3\<close> then returns a room whose number is 1.
\<close>

theorem configure_rooms_twice_restarts_numbers:
  "\<exists>s1 s2 r. configure_rooms 0 2 (snd (OfficeManager_new init_store)) = Some s1
     \<and> configure_rooms 0 2 s1 = Some s2
     \<and> room_numbers 0 s2 = Some [1, 2, 1, 2]
     \<and> get_room 0 3 s2 = Some (Some 2, s2)
     \<and> deref (room_objs s2) 2 = Some r
     \<and> get_room_number r = 1"
proof -
  let ?s0 = "snd (OfficeManager_new init_store)"
  let ?s1 = "\<lparr>room_objs = [Room_init 1, Room_init 2],
      manager_objs = [\<lparr>rooms = [0, 1]\<rparr>], instance = Some 0,
      console = [Office_configured 2]\<rparr>"
  let ?s2 = "\<lparr>room_objs = [Room_init 1, Room_init 2, Room_init 1, Room_init 2],
      manager_objs = [\<lparr>rooms = [0, 1, 2, 3]\<rparr>], instance = Some 0,
      console = [Office_configured 2, Office_configured 2]\<rparr>"
  have d0: "deref (manager_objs ?s0) 0 = Some \<lparr>rooms = []\<rparr>"
    by (simp add: new_init_store deref_def)
  have c1: "configure_rooms 0 2 ?s0 = Some ?s1"
    by (simp add: configure_rooms_appends [OF d0] upto_1_2) (simp add: new_init_store upt_rec)
  have d1: "deref (manager_objs ?s1) 0 = Some \<lparr>rooms = [0, 1]\<rparr>"
    by (simp add: deref_def)
  have c2: "configure_rooms 0 2 ?s1 = Some ?s2"
    using configure_rooms_appends [OF d1, of 2] by (simp add: upto_1_2 upt_rec)
  have n: "room_numbers 0 ?s2 = Some [1, 2, 1, 2]"
    by (simp add: room_numbers_def deref_def get_room_number_def Room_init_def)
  have g: "get_room 0 3 ?s2 = Some (Some 2, ?s2)"
    by (simp add: get_room_def deref_def)
  have r: "deref (room_objs ?s2) 2 = Some (Room_init 1)"
    by (simp add: deref_def)
  have "get_room_number (Room_init 1) = 1"
    by (simp add: get_room_number_def Room_init_def)
  with c1 c2 n g r show ?thesis
    by blast
qed

subsection \<open>Commands\<close>

lemma BookRoomCommand_execute_free:
  assumes "deref (room_objs s) (room self) = Some r" and "\<not> is_occupied r"
  shows "BookRoomCommand_execute self s =
           Some (s\<lparr>room_objs := (room_objs s)[room self := fst (add_occupants r 2)],
                   console := console s
                     @ Room_booked (room_number r) (start_time self) (duration self)
                     # snd (add_occupants r 2)\<rparr>)"
  using assms
  by (simp add: BookRoomCommand_execute_def call_room_def print_def get_room_number_def
      split: prod.splits)

lemma BookRoomCommand_execute_occupied:
  assumes "deref (room_objs s) (room self) = Some r" and "is_occupied r"
  shows "BookRoomCommand_execute self s =
           Some (s\<lparr>console := console s @ [Already_booked (room_number r)]\<rparr>)"
  using assms
  by (simp add: BookRoomCommand_execute_def print_def get_room_number_def)

lemma book_demo_store:
  "BookRoomCommand_execute (BookRoomCommand_init 0 ''09:00'' 60) demo_store = Some booked_store"
  by (simp add: BookRoomCommand_execute_def BookRoomCommand_init_def demo_store_def
      booked_store_def deref_def is_occupied_def Room_init_def call_room_def print_def
      add_occupants_def notify_observers_def get_room_number_def)

text \<open>
  Claim C5. When the room of a booking command is not occupied, \<open>execute\<close> prints the
  booking line with the command's start time and duration, then calls
  \<open>add_occupants 2\<close> on the room, which is occupied afterwards; no other room changes.
  When the room is occupied, it prints the already-booked line and the rooms are as
  before. Executing the same command a second time always takes the second branch.
\<close>

theorem BookRoomCommand_execute_books_or_conflicts:
  assumes "deref (room_objs s) (room self) = Some r"
  shows "(\<not> is_occupied r \<longrightarrow>
            (\<exists>s1. BookRoomCommand_execute self s = Some s1
               \<and> deref (room_objs s1) (room self) = Some (fst (add_occupants r 2))
               \<and> room_is_occupied (room self) s1 = Some True
               \<and> console s1 = console s
                    @ Room_booked (room_number r) (start_time self) (duration self)
                    # snd (add_occupants r 2)
               \<and> (\<forall>b. b \<noteq> room self \<longrightarrow> deref (room_objs s1) b = deref (room_objs s) b)))
       \<and> (is_occupied r \<longrightarrow>
            (\<exists>s1. BookRoomCommand_execute self s = Some s1
               \<and> room_objs s1 = room_objs s
               \<and> console s1 = console s @ [Already_booked (room_number r)]))
       \<and> (\<exists>s1 s2. BookRoomCommand_execute self s = Some s1
               \<and> BookRoomCommand_execute self s1 = Some s2
               \<and> room_objs s2 = room_objs s1
               \<and> console s2 = console s1 @ [Already_booked (room_number r)])"
proof -
  have lt: "room self < length (room_objs s)"
    using assms by (simp add: deref_Some_iff)
  have free: "\<not> is_occupied r \<Longrightarrow>
      \<exists>s1. BookRoomCommand_execute self s = Some s1
         \<and> deref (room_objs s1) (room self) = Some (fst (add_occupants r 2))
         \<and> room_is_occupied (room self) s1 = Some True
         \<and> console s1 = console s
              @ Room_booked (room_number r) (start_time self) (duration self)
              # snd (add_occupants r 2)
         \<and> (\<forall>b. b \<noteq> room self \<longrightarrow> deref (room_objs s1) b = deref (room_objs s) b)"
    using lt
    by (simp add: BookRoomCommand_execute_free [OF assms] deref_def room_is_occupied_def
        fst_add_occupants is_occupied_def)
  have occ: "deref (room_objs t) (room self) = Some r' \<Longrightarrow> is_occupied r' \<Longrightarrow>
      \<exists>s1. BookRoomCommand_execute self t = Some s1
         \<and> room_objs s1 = room_objs t
         \<and> console s1 = console t @ [Already_booked (room_number r')]" for t r'
    by (simp add: BookRoomCommand_execute_occupied)
  have twice: "\<exists>s1 s2. BookRoomCommand_execute self s = Some s1
               \<and> BookRoomCommand_execute self s1 = Some s2
               \<and> room_objs s2 = room_objs s1
               \<and> console s2 = console s1 @ [Already_booked (room_number r)]"
  proof (cases "is_occupied r")
    case True
    from occ [OF assms True] obtain s1 where
      s1: "BookRoomCommand_execute self s = Some s1" "room_objs s1 = room_objs s"
      by blast
    then have "deref (room_objs s1) (room self) = Some r"
      using assms by simp
    from occ [OF this True] s1 show ?thesis
      by blast
  next
    case False
    from free [OF False] obtain s1 where
      s1: "BookRoomCommand_execute self s = Some s1"
        "deref (room_objs s1) (room self) = Some (fst (add_occupants r 2))"
      by blast
    have "is_occupied (fst (add_occupants r 2))"
      by (simp add: fst_add_occupants is_occupied_def)
    from occ [OF s1(2) this] s1(1) show ?thesis
      by (auto simp: fst_add_occupants)
  qed
  from free occ [OF assms] twice show ?thesis
    by blast
qed

theorem BookRoomCommand_execute_books_or_conflicts_witness:
  "deref (room_objs demo_store) (room (BookRoomCommand_init 0 ''09:00'' 60)) = Some (Room_init 1)
   \<and> \<not> is_occupied (Room_init 1)
   \<and> (\<exists>s1. BookRoomCommand_execute (BookRoomCommand_init 0 ''09:00'' 60) demo_store = Some s1
          \<and> room_is_occupied 0 s1 = Some True
          \<and> console s1 = console demo_store
               @ Room_booked 1 ''09:00'' 60 # snd (add_occupants (Room_init 1) 2))
   \<and> deref (room_objs booked_store) (room (BookRoomCommand_init 0 ''09:00'' 60))
        = Some (Room_init 1\<lparr>occupied := True\<rparr>)
   \<and> is_occupied (Room_init 1\<lparr>occupied := True\<rparr>)
   \<and> (\<exists>s2. BookRoomCommand_execute (BookRoomCommand_init 0 ''09:00'' 60) booked_store = Some s2
          \<and> room_objs s2 = room_objs booked_store
          \<and> console s2 = console booked_store @ [Already_booked 1])"
proof -
  let ?c = "BookRoomCommand_init 0 ''09:00'' 60"
  have d1: "deref (room_objs demo_store) (room ?c) = Some (Room_init 1)"
    by (simp add: demo_store_def BookRoomCommand_init_def deref_def)
  have d2: "deref (room_objs booked_store) (room ?c) = Some (Room_init 1\<lparr>occupied := True\<rparr>)"
    by (simp add: booked_store_def BookRoomCommand_init_def deref_def)
  have f: "\<not> is_occupied (Room_init 1)" and o: "is_occupied (Room_init 1\<lparr>occupied := True\<rparr>)"
    and n: "room_number (Room_init 1) = 1" "room ?c = 0" "start_time ?c = ''09:00''"
      "duration ?c = 60"
    by (simp_all add: is_occupied_def Room_init_def BookRoomCommand_init_def)
  show ?thesis
    using d1 d2 f o BookRoomCommand_execute_books_or_conflicts [OF d1]
      BookRoomCommand_execute_books_or_conflicts [OF d2]
    by (simp add: n) blast
qed

lemma CancelBookingCommand_execute_occupied:
  assumes "deref (room_objs s) (croom self) = Some r" and "is_occupied r"
  shows "CancelBookingCommand_execute self s =
           Some (s\<lparr>room_objs := (room_objs s)[croom self := fst (release_occupants r)],
                   console := console s @ snd (release_occupants r)
                     @ [Booking_cancelled (room_number r)]\<rparr>)"
proof -
  have lt: "croom self < length (room_objs s)"
    using assms(1) by (simp add: deref_Some_iff)
  show ?thesis
    using assms lt
    by (simp add: CancelBookingCommand_execute_def call_room_Some [OF assms(1)] print_def
        get_room_number_def fst_release_occupants deref_update_same)
qed

lemma CancelBookingCommand_execute_free:
  assumes "deref (room_objs s) (croom self) = Some r" and "\<not> is_occupied r"
  shows "CancelBookingCommand_execute self s =
           Some (s\<lparr>console := console s @ [Not_booked (room_number r)]\<rparr>)"
  using assms
  by (simp add: CancelBookingCommand_execute_def print_def get_room_number_def)

text \<open>
  Claim C6. When the room of a cancel command is occupied, \<open>execute\<close> calls
  \<open>release_occupants\<close> on it, so that it is unoccupied afterwards, and prints the
  cancellation line; no other room changes. When the room is not occupied, it prints the
  not-booked line and the rooms are as before.
\<close>

theorem CancelBookingCommand_execute_releases_or_reports:
  assumes "deref (room_objs s) (croom self) = Some r"
  shows "(is_occupied r \<longrightarrow>
            (\<exists>s1. CancelBookingCommand_execute self s = Some s1
               \<and> deref (room_objs s1) (croom self) = Some (fst (release_occupants r))
               \<and> room_is_occupied (croom self) s1 = Some False
               \<and> console s1 = console s @ snd (release_occupants r)
                    @ [Booking_cancelled (room_number r)]
               \<and> (\<forall>b. b \<noteq> croom self \<longrightarrow> deref (room_objs s1) b = deref (room_objs s) b)))
       \<and> (\<not> is_occupied r \<longrightarrow>
            (\<exists>s1. CancelBookingCommand_execute self s = Some s1
               \<and> room_objs s1 = room_objs s
               \<and> console s1 = console s @ [Not_booked (room_number r)]))"
proof -
  have lt: "croom self < length (room_objs s)"
    using assms by (simp add: deref_Some_iff)
  show ?thesis
    using lt
    by (simp add: CancelBookingCommand_execute_occupied [OF assms]
        CancelBookingCommand_execute_free [OF assms] deref_def room_is_occupied_def
        fst_release_occupants is_occupied_def)
qed

theorem CancelBookingCommand_execute_releases_or_reports_witness:
  "deref (room_objs booked_store) (croom (CancelBookingCommand_init 0))
     = Some (Room_init 1\<lparr>occupied := True\<rparr>)
   \<and> is_occupied (Room_init 1\<lparr>occupied := True\<rparr>)
   \<and> (\<exists>s1. CancelBookingCommand_execute (CancelBookingCommand_init 0) booked_store = Some s1
          \<and> room_is_occupied 0 s1 = Some False
          \<and> console s1 = console booked_store
               @ [Now_unoccupied 1, AC_turned_off, Lights_turned_off, Booking_cancelled 1])
   \<and> deref (room_objs demo_store) (croom (CancelBookingCommand_init 1)) = Some (Room_init 2)
   \<and> \<not> is_occupied (Room_init 2)
   \<and> (\<exists>s1. CancelBookingCommand_execute (CancelBookingCommand_init 1) demo_store = Some s1
          \<and> room_objs s1 = room_objs demo_store
          \<and> console s1 = console demo_store @ [Not_booked 2])"
proof -
  let ?c = "CancelBookingCommand_init 0" and ?d = "CancelBookingCommand_init 1"
  have d1: "deref (room_objs booked_store) (croom ?c) = Some (Room_init 1\<lparr>occupied := True\<rparr>)"
    by (simp add: booked_store_def CancelBookingCommand_init_def deref_def)
  have d2: "deref (room_objs demo_store) (croom ?d) = Some (Room_init 2)"
    by (simp add: demo_store_def CancelBookingCommand_init_def deref_def)
  have f: "\<not> is_occupied (Room_init 2)" and o: "is_occupied (Room_init 1\<lparr>occupied := True\<rparr>)"
    and n: "room_number (Room_init 1\<lparr>occupied := True\<rparr>) = 1" "room_number (Room_init 2) = 2"
      "croom ?c = 0" "croom ?d = 1"
      "snd (release_occupants (Room_init 1\<lparr>occupied := True\<rparr>)) =
         [Now_unoccupied 1, AC_turned_off, Lights_turned_off]"
    by (simp_all add: is_occupied_def Room_init_def CancelBookingCommand_init_def
        snd_release_occupants)
  show ?thesis
    using d1 d2 f o CancelBookingCommand_execute_releases_or_reports [OF d1]
      CancelBookingCommand_execute_releases_or_reports [OF d2]
    by (simp add: n) blast
qed

section \<open>Properties of the sorting strategies\<close>

subsection \<open>In-range accesses\<close>







subsection \<open>Bubble sort\<close>





subsection \<open>Quick sort\<close>








subsection \<open>Frames\<close>





subsection \<open>The depth of the recursion\<close>




subsection \<open>The two strategies\<close>






end
